theory Spec2Isabelle
  imports Main
begin

section \<open>Values of the host language\<close>

text \<open>
  Strings are byte lists holding the UTF-8 encoding of the text, so \<open>Buffer.from(s)\<close>
  is the identity on them. A number that reaches the review code is either an integer
  or the value NaN (the result of \<open>Number\<close> or \<open>parseInt\<close> on text that is not a number).
  Fractions, infinities and integers beyond the exactly representable range are outside
  this model.
\<close>

datatype jsnum = NaN | Num int

fun num_sub :: "jsnum \<Rightarrow> jsnum \<Rightarrow> jsnum" where
  "num_sub (Num a) (Num b) = Num (a - b)"
| "num_sub _ _ = NaN"

fun num_abs :: "jsnum \<Rightarrow> jsnum" where
  "num_abs (Num a) = Num \<bar>a\<bar>"
| "num_abs NaN = NaN"


fun num_le :: "jsnum \<Rightarrow> jsnum \<Rightarrow> bool" where
  "num_le (Num a) (Num b) = (a \<le> b)"
| "num_le _ _ = False"


subsection \<open>Numbers in template literals\<close>

definition digit_char :: "nat \<Rightarrow> char" where
  "digit_char d = char_of (48 + d)"

fun digits :: "nat \<Rightarrow> string" where
  "digits n = (if n < 10 then [digit_char n] else digits (n div 10) @ [digit_char (n mod 10)])"

declare digits.simps [simp del]


fun num_to_string :: "jsnum \<Rightarrow> string" where
  "num_to_string NaN = ''NaN''"
| "num_to_string (Num i) = (if i < 0 then CHR ''-'' # digits (nat (- i)) else digits (nat i))"

subsection \<open>\<open>toString("base64")\<close>\<close>

definition b64_alphabet :: string where
  "b64_alphabet = ''ABCDEFGHIJKLMNOPQRSTUVWXYZabcdefghijklmnopqrstuvwxyz0123456789+/''"

definition b64 :: "nat \<Rightarrow> char" where
  "b64 n = b64_alphabet ! (n mod 64)"

fun base64 :: "string \<Rightarrow> string" where
  "base64 [] = []"
| "base64 [a] =
     (let x = (of_char a :: nat)
      in [b64 (x div 4), b64 ((x mod 4) * 16), CHR ''='', CHR ''=''])"
| "base64 [a, b] =
     (let x = (of_char a :: nat); y = (of_char b :: nat)
      in [b64 (x div 4), b64 ((x mod 4) * 16 + y div 16), b64 ((y mod 16) * 4), CHR ''=''])"
| "base64 (a # b # c # rest) =
     (let x = (of_char a :: nat); y = (of_char b :: nat); z = (of_char c :: nat)
      in [b64 (x div 4), b64 ((x mod 4) * 16 + y div 16),
          b64 ((y mod 16) * 4 + z div 64), b64 (z mod 64)] @ base64 rest)"

subsection \<open>\<open>replace(/\[.*?\]/g, "")\<close> and \<open>trim()\<close>\<close>

text \<open>
  The dot of a regular expression matches every character but the line terminators
  LF, CR, U+2028 and U+2029; the last two are three bytes each in UTF-8.
\<close>

definition line_terminator_at :: "string \<Rightarrow> bool" where
  "line_terminator_at s =
     (take 1 s = [CHR 0x0A] \<or> take 1 s = [CHR 0x0D] \<or>
      take 3 s = [CHR 0xE2, CHR 0x80, CHR 0xA8] \<or> take 3 s = [CHR 0xE2, CHR 0x80, CHR 0xA9])"

text \<open>
  \<open>close_bracket s\<close> is the text after the first \<open>]\<close> of \<open>s\<close> when no line terminator
  comes before it: the lazy \<open>.*?\]\<close> matched at the start of \<open>s\<close>.
\<close>

fun close_bracket :: "string \<Rightarrow> string option" where
  "close_bracket [] = None"
| "close_bracket (c # cs) =
     (if c = CHR '']'' then Some cs
      else if line_terminator_at (c # cs) then None
      else close_bracket cs)"

lemma close_bracket_length: "close_bracket s = Some r \<Longrightarrow> length r < length s"
  by (induction s) (auto split: if_splits)

function remove_bracketed :: "string \<Rightarrow> string" where
  "remove_bracketed [] = []"
| "remove_bracketed (c # cs) =
     (if c = CHR ''[''
      then (case close_bracket cs of
              Some rest \<Rightarrow> remove_bracketed rest
            | None \<Rightarrow> c # remove_bracketed cs)
      else c # remove_bracketed cs)"
  by pat_completeness auto
termination
  by (relation "measure length") (auto dest: close_bracket_length)

text \<open>
  \<open>trim\<close> removes white space and line terminators from both ends: TAB, LF, VT, FF, CR,
  SPACE, U+00A0, U+1680, U+2000 to U+200A, U+2028, U+2029, U+202F, U+205F, U+3000 and
  U+FEFF, listed here by their UTF-8 bytes.
\<close>

definition white_space :: "string list" where
  "white_space =
     [ [CHR 0x09], [CHR 0x0A], [CHR 0x0B], [CHR 0x0C], [CHR 0x0D], [CHR 0x20],
      [CHR 0xC2, CHR 0xA0], [CHR 0xE1, CHR 0x9A, CHR 0x80],
      [CHR 0xE2, CHR 0x80, CHR 0x80], [CHR 0xE2, CHR 0x80, CHR 0x81],
      [CHR 0xE2, CHR 0x80, CHR 0x82], [CHR 0xE2, CHR 0x80, CHR 0x83],
      [CHR 0xE2, CHR 0x80, CHR 0x84], [CHR 0xE2, CHR 0x80, CHR 0x85],
      [CHR 0xE2, CHR 0x80, CHR 0x86], [CHR 0xE2, CHR 0x80, CHR 0x87],
      [CHR 0xE2, CHR 0x80, CHR 0x88], [CHR 0xE2, CHR 0x80, CHR 0x89],
      [CHR 0xE2, CHR 0x80, CHR 0x8A], [CHR 0xE2, CHR 0x80, CHR 0xA8],
      [CHR 0xE2, CHR 0x80, CHR 0xA9], [CHR 0xE2, CHR 0x80, CHR 0xAF],
      [CHR 0xE2, CHR 0x81, CHR 0x9F], [CHR 0xE3, CHR 0x80, CHR 0x80],
      [CHR 0xEF, CHR 0xBB, CHR 0xBF] ]"

text \<open>The number of bytes of the white-space character \<open>s\<close> starts with, 0 if none.\<close>

definition white_space_prefix :: "string list \<Rightarrow> string \<Rightarrow> nat" where
  "white_space_prefix ws s =
     (case filter (\<lambda>w. take (length w) s = w) ws of [] \<Rightarrow> 0 | w # _ \<Rightarrow> length w)"

function trim_start_with :: "string list \<Rightarrow> string \<Rightarrow> string" where
  "trim_start_with ws s =
     (let n = white_space_prefix ws s
      in if n = 0 \<or> s = [] then s else trim_start_with ws (drop n s))"
  by pat_completeness auto
termination
  by (relation "measure (\<lambda>(ws, s). length s)") auto

declare trim_start_with.simps [simp del]

definition trimStart :: "string \<Rightarrow> string" where
  "trimStart s = trim_start_with white_space s"

definition trimEnd :: "string \<Rightarrow> string" where
  "trimEnd s = rev (trim_start_with (map rev white_space) (rev s))"

definition trim :: "string \<Rightarrow> string" where
  "trim s = trimEnd (trimStart s)"

text \<open>The normalisation the matching applies to a body: \<open>body.replace(/\[.*?\]/g, "").trim()\<close>.\<close>

definition strip_body :: "string \<Rightarrow> string" where
  "strip_body b = trim (remove_bracketed b)"

section \<open>The data model\<close>

datatype Severity = Critical | Warning | Suggestion

datatype Status = Active | Resolved | Outdated

datatype Source = Ai | QualityTool

text \<open>
  \<open>interface ReviewComment\<close>. The optional fields \<open>id\<close>, \<open>status\<close> and \<open>source\<close> are
  options, \<open>None\<close> being \<open>undefined\<close>. \<open>HistoricalReviewComment\<close> is the same record
  with \<open>id\<close> and \<open>status\<close> present. Three fields are renamed: \<open>id\<close> of a comment is
  \<open>id'\<close>, \<open>id\<close> of a historical review is \<open>review_id\<close>, and \<open>severity\<close> of a response of the
  model is \<open>ai_severity\<close>.
\<close>

record ReviewComment =
  body :: string
  path :: string
  line :: jsnum
  severity :: Severity
  id' :: "string option"
  status :: "Status option"
  source :: "Source option"

record HistoricalReview =
  review_id :: string
  comment :: ReviewComment
  commitSha :: string
  timestamp :: string

text \<open>
  The parts of the diff library's \<open>File\<close> and \<open>Chunk\<close> that \<open>createComment\<close> reads. A change
  is an added line (\<open>ln\<close>), a deleted line (\<open>ln\<close>) or an unchanged one (\<open>ln1\<close>, \<open>ln2\<close>), each
  with its text.
\<close>

datatype Change = Add int string | Del int string | Normal int int string

record Chunk =
  changes :: "Change list"

record File =
  to :: "string option"
  chunks :: "Chunk list"


section \<open>\<open>createComment\<close>: anchoring a finding to a line of the hunk\<close>









section \<open>\<open>compareWithPreviousReviews\<close>: the reconciliation\<close>

text \<open>The identifier of lines 743 to 745: base64 of \<open>path:line:body\<close>, the body as it stands.\<close>

definition commentId :: "ReviewComment \<Rightarrow> string" where
  "commentId newComment =
     base64 (path newComment @ '':'' @ num_to_string (line newComment) @ '':'' @ body newComment)"

text \<open>The predicate given to \<open>historicalReviews.find\<close>.\<close>

definition previously_reported :: "ReviewComment \<Rightarrow> HistoricalReview \<Rightarrow> bool" where
  "previously_reported newComment hr =
     (path (comment hr) = path newComment \<and>
      num_le (num_abs (num_sub (line (comment hr)) (line newComment))) (Num 3) \<and>
      strip_body (body (comment hr)) = strip_body (body newComment))"

text \<open>The literals of the source file, by the bytes they have there.\<close>

definition advisory :: string where
  "advisory =
     [CHR 0x0A, CHR 0x0A, CHR 0xE2, CHR 0x80, CHR 0x9A, CHR 0xC3, CHR 0xB6, CHR 0xE2, CHR 0x80,
      CHR 0xA0, CHR 0xC3, CHR 0x94, CHR 0xE2, CHR 0x88, CHR 0x8F, CHR 0xC3, CHR 0xA8]
     @ '' This issue was previously reported and still needs to be addressed.''"

definition resolved_marker :: string where
  "resolved_marker =
     [CHR 0xE2, CHR 0x80, CHR 0x9A, CHR 0xC3, CHR 0xBA, CHR 0xC3, CHR 0x96] @ '' RESOLVED: ''"

definition tracking_marker :: "string \<Rightarrow> string \<Rightarrow> string" where
  "tracking_marker commentId' currentCommitSha =
     ''<!--review-id:'' @ commentId' @ '',commit:'' @ currentCommitSha @ ''-->'' @ [CHR 0x0A]"

text \<open>One pass of the loop over \<open>newComments\<close>, as a function of the record it updates.\<close>

definition processComment :: "HistoricalReview list \<Rightarrow> string \<Rightarrow> ReviewComment \<Rightarrow> ReviewComment" where
  "processComment historicalReviews currentCommitSha newComment =
     (let commentId' = commentId newComment;
          c1 = newComment\<lparr>id' := Some commentId'\<rparr>;
          previousReview = find (previously_reported c1) historicalReviews;
          c2 = (case previousReview of
                  Some _ \<Rightarrow> c1\<lparr>body := body c1 @ advisory\<rparr>
                | None \<Rightarrow> c1)
      in c2\<lparr>body := tracking_marker commentId' currentCommitSha @ body c2\<rparr>)"

text \<open>
  The comments are objects: \<open>newComments\<close> is a list of references into a heap, and the loop
  assigns to the fields of the object each reference denotes.
\<close>

type_synonym ref = nat
type_synonym heap = "ref \<Rightarrow> ReviewComment"

fun process_loop :: "HistoricalReview list \<Rightarrow> string \<Rightarrow> heap \<Rightarrow> ref list \<Rightarrow> heap" where
  "process_loop historicalReviews currentCommitSha h [] = h"
| "process_loop historicalReviews currentCommitSha h (r # rs) =
     process_loop historicalReviews currentCommitSha
       (h(r := processComment historicalReviews currentCommitSha (h r))) rs"

definition mark_resolved :: "HistoricalReview \<Rightarrow> ReviewComment" where
  "mark_resolved hr =
     (comment hr)\<lparr>body := resolved_marker @ body (comment hr), status := Some Resolved\<rparr>"

definition resolvedComments :: "HistoricalReview list \<Rightarrow> ReviewComment list \<Rightarrow> ReviewComment list" where
  "resolvedComments historicalReviews processedComments =
     map mark_resolved
       (filter (\<lambda>hr. \<not> list_ex (\<lambda>pc. id' pc = id' (comment hr)) processedComments)
          historicalReviews)"

text \<open>
  The result is the heap after the call and the returned array, read in that heap: the
  objects of \<open>newComments\<close> themselves, then the new objects for the resolved records.
\<close>

definition compareWithPreviousReviews ::
  "heap \<Rightarrow> ref list \<Rightarrow> HistoricalReview list \<Rightarrow> string \<Rightarrow> heap \<times> ReviewComment list" where
  "compareWithPreviousReviews h newComments historicalReviews currentCommitSha =
     (let h' = process_loop historicalReviews currentCommitSha h newComments;
          processedComments = map h' newComments
      in (h', processedComments @ resolvedComments historicalReviews processedComments))"

section \<open>The comment mode and the thresholds of \<open>main\<close>\<close>








section \<open>Sample findings, records and hunks\<close>

text \<open>
  The concrete inputs of the examples below: the finding of the specification's scenario
  (\<open>a.py\<close>, line 10, \<open>unused import\<close>, a warning), a second finding, historical records
  for them, and a hunk whose added and unchanged lines are 2, 5 and 9.
\<close>

abbreviation finding_a :: ReviewComment where
  "finding_a \<equiv>
     \<lparr>body = ''unused import'', path = ''a.py'', line = Num 10, severity = Warning,
      id' = None, status = None, source = None\<rparr>"

abbreviation finding_a_tagged :: ReviewComment where
  "finding_a_tagged \<equiv>
     \<lparr>body = ''[style] unused import'', path = ''a.py'', line = Num 10, severity = Warning,
      id' = None, status = None, source = None\<rparr>"

abbreviation finding_b :: ReviewComment where
  "finding_b \<equiv>
     \<lparr>body = ''missing await'', path = ''b.ts'', line = Num 20, severity = Critical,
      id' = None, status = None, source = None\<rparr>"

text \<open>The base64 encodings of \<open>a.py:10:unused import\<close>, \<open>b.ts:20:missing await\<close> and \<open>c.js:5:dead code\<close>.\<close>

abbreviation id_a :: string where
  "id_a \<equiv> ''YS5weToxMDp1bnVzZWQgaW1wb3J0''"

abbreviation id_b :: string where
  "id_b \<equiv> ''Yi50czoyMDptaXNzaW5nIGF3YWl0''"



abbreviation record_a_moved :: HistoricalReview where
  "record_a_moved \<equiv>
     \<lparr>review_id = ''old'',
      comment = \<lparr>body = ''[WARNING] unused import'', path = ''a.py'', line = Num 12,
                  severity = Warning, id' = Some ''old'', status = Some Active, source = None\<rparr>,
      commitSha = ''c0'', timestamp = ''t0''\<rparr>"

abbreviation record_b :: HistoricalReview where
  "record_b \<equiv>
     \<lparr>review_id = id_b,
      comment = \<lparr>body = ''[CRITICAL] missing await'', path = ''b.ts'', line = Num 20,
                  severity = Critical, id' = Some id_b, status = Some Active, source = None\<rparr>,
      commitSha = ''c0'', timestamp = ''t0''\<rparr>"


text \<open>What the reconciliation at commit \<open>sha\<close> makes of the two findings and of two records.\<close>

abbreviation reconciled_a :: "string \<Rightarrow> ReviewComment" where
  "reconciled_a sha \<equiv>
     \<lparr>body = ''<!--review-id:'' @ id_a @ '',commit:'' @ sha @ ''-->'' @ [CHR 0x0A]
              @ ''unused import'',
      path = ''a.py'', line = Num 10, severity = Warning,
      id' = Some id_a, status = None, source = None\<rparr>"




text \<open>The output of a run at commit \<open>c1\<close> on \<open>finding_a\<close>, taken as a historical record.\<close>

abbreviation record_of_reconciled_a :: HistoricalReview where
  "record_of_reconciled_a \<equiv>
     \<lparr>review_id = id_a, comment = reconciled_a ''c1'', commitSha = ''c1'', timestamp = ''t1''\<rparr>"

text \<open>Heaps holding the findings: one object, and two objects at the references 0 and 1.\<close>

abbreviation heap_a :: heap where
  "heap_a \<equiv> (\<lambda>_. finding_a)"

abbreviation heap_a_tagged :: heap where
  "heap_a_tagged \<equiv> (\<lambda>_. finding_a_tagged)"


abbreviation heap_ab :: heap where
  "heap_ab \<equiv> (\<lambda>r. if r = 0 then finding_a else finding_b)"






section \<open>What one call of the reconciliation computes\<close>

lemma process_loop_other:
  "r \<notin> set rs \<Longrightarrow> process_loop hist sha h rs r = h r"
  by (induction rs arbitrary: h) auto

lemma process_loop_distinct:
  "distinct rs \<Longrightarrow> r \<in> set rs \<Longrightarrow> process_loop hist sha h rs r = processComment hist sha (h r)"
  by (induction rs arbitrary: h) (auto simp: process_loop_other)

lemma map_process_loop:
  "distinct rs \<Longrightarrow> map (process_loop hist sha h rs) rs = map (\<lambda>r. processComment hist sha (h r)) rs"
  by (simp add: process_loop_distinct)

lemma previously_reported_id [simp]:
  "previously_reported (c\<lparr>id' := x\<rparr>) = previously_reported c"
  by (rule ext) (simp add: previously_reported_def)

lemma find_Some_ex: "(\<exists>y. find P xs = Some y) = (\<exists>x\<in>set xs. P x)"
  by (induction xs) auto

lemma processComment_fields [simp]:
  "path (processComment hist sha c) = path c"
  "line (processComment hist sha c) = line c"
  "severity (processComment hist sha c) = severity c"
  "status (processComment hist sha c) = status c"
  "source (processComment hist sha c) = source c"
  "id' (processComment hist sha c) = Some (commentId c)"
  by (simp_all add: processComment_def Let_def split: option.splits)

lemma processComment_body:
  "body (processComment hist sha c) =
     tracking_marker (commentId c) sha @ body c @
       (if \<exists>hr\<in>set hist. previously_reported c hr then advisory else [])"
proof (cases "find (previously_reported c) hist")
  case None
  then have "\<not> (\<exists>hr\<in>set hist. previously_reported c hr)"
    using find_Some_ex [of "previously_reported c" hist] by simp
  with None show ?thesis by (simp add: processComment_def Let_def)
next
  case (Some y)
  then have "\<exists>hr\<in>set hist. previously_reported c hr"
    using find_Some_ex [of "previously_reported c" hist] by auto
  with Some show ?thesis by (simp add: processComment_def Let_def)
qed

lemma compare_snd:
  "distinct refs \<Longrightarrow>
   snd (compareWithPreviousReviews h refs hist sha) =
     map (\<lambda>r. processComment hist sha (h r)) refs
     @ resolvedComments hist (map (\<lambda>r. processComment hist sha (h r)) refs)"
  by (simp add: compareWithPreviousReviews_def Let_def map_process_loop)

lemma compare_fst:
  "distinct refs \<Longrightarrow>
   fst (compareWithPreviousReviews h refs hist sha) r =
     (if r \<in> set refs then processComment hist sha (h r) else h r)"
  by (simp add: compareWithPreviousReviews_def Let_def process_loop_distinct process_loop_other)

lemma compare_nth:
  "distinct refs \<Longrightarrow> i < length refs \<Longrightarrow>
   snd (compareWithPreviousReviews h refs hist sha) ! i = processComment hist sha (h (refs ! i))"
  by (simp add: compare_snd nth_append)

lemma process_loop_status:
  "status (process_loop hist sha h rs r) = status (h r)"
  by (induction rs arbitrary: h) auto

lemma resolvedComments_ids:
  "resolvedComments hist (map (\<lambda>r. processComment hist' sha (h r)) refs) =
     map mark_resolved
       (filter (\<lambda>hr. id' (comment hr) \<notin> (\<lambda>r. Some (commentId (h r))) ` set refs) hist)"
proof -
  have "list_ex (\<lambda>pc. id' pc = id' (comment hr)) (map (\<lambda>r. processComment hist' sha (h r)) refs)
        = (id' (comment hr) \<in> (\<lambda>r. Some (commentId (h r))) ` set refs)"
    for hr :: HistoricalReview
    by (simp add: list_ex_iff image_iff) metis
  then show ?thesis
    by (simp add: resolvedComments_def)
qed



lemma mark_resolved_id [simp]: "id' (mark_resolved hr) = id' (comment hr)"
  by (simp add: mark_resolved_def)

section \<open>What \<open>createComment\<close> computes\<close>










section \<open>The identifier of an issue\<close>

text \<open>
  C1 (as the code has it). The identifier the reconciliation gives the issue at position \<open>i\<close>
  of its input is the base64 encoding of the issue's path, a colon, its line, a colon and its
  body exactly as received: no marker or bracketed tag is removed from the body first. It
  does not depend on the history or on the commit, so two issues with the same path, line
  and body receive the same identifier in any two runs.
\<close>

theorem identifier_is_base64_of_unstripped_text:
  assumes "distinct newComments" and "i < length newComments"
  shows "id' (snd (compareWithPreviousReviews h newComments historicalReviews currentCommitSha) ! i) =
         Some (base64 (path (h (newComments ! i)) @ '':''
                 @ num_to_string (line (h (newComments ! i))) @ '':''
                 @ body (h (newComments ! i))))
       \<and> (distinct newComments2 \<and> j < length newComments2 \<and>
          path (h2 (newComments2 ! j)) = path (h (newComments ! i)) \<and>
          line (h2 (newComments2 ! j)) = line (h (newComments ! i)) \<and>
          body (h2 (newComments2 ! j)) = body (h (newComments ! i)) \<longrightarrow>
          id' (snd (compareWithPreviousReviews h2 newComments2 historicalReviews2 currentCommitSha2) ! j) =
          id' (snd (compareWithPreviousReviews h newComments historicalReviews currentCommitSha) ! i))"
  using assms by (simp add: compare_nth commentId_def)

theorem identifier_is_base64_of_unstripped_text_witness:
  "distinct [0::nat] \<and> (0::nat) < length [0::nat] \<and>
   distinct [0::nat, 1] \<and> (0::nat) < length [0::nat, 1] \<and>
   path (heap_ab ([0, 1] ! 0)) = path (heap_a ([0] ! 0)) \<and>
   line (heap_ab ([0, 1] ! 0)) = line (heap_a ([0] ! 0)) \<and>
   body (heap_ab ([0, 1] ! 0)) = body (heap_a ([0] ! 0)) \<and>
   id' (snd (compareWithPreviousReviews heap_a [0] [] ''abc'') ! 0) = Some id_a \<and>
   id' (snd (compareWithPreviousReviews heap_ab [0, 1] [record_b] ''def'') ! 0) = Some id_a"
proof -
  have enc: "base64 (''a.py'' @ '':'' @ num_to_string (Num 10) @ '':'' @ ''unused import'') = id_a"
    by code_simp
  have d: "distinct [0::nat]" and l: "(0::nat) < length [0::nat]"
    by simp_all
  have same: "distinct [0::nat, 1] \<and> (0::nat) < length [0::nat, 1] \<and>
              path (heap_ab ([0, 1] ! 0)) = path (heap_a ([0] ! 0)) \<and>
              line (heap_ab ([0, 1] ! 0)) = line (heap_a ([0] ! 0)) \<and>
              body (heap_ab ([0, 1] ! 0)) = body (heap_a ([0] ! 0))"
    by simp
  have first: "id' (snd (compareWithPreviousReviews heap_a [0] [] ''abc'') ! 0) = Some id_a"
    using identifier_is_base64_of_unstripped_text [OF d l, of heap_a "[]" "''abc''"] enc
    by simp
  have second: "id' (snd (compareWithPreviousReviews heap_ab [0, 1] [record_b] ''def'') ! 0) =
                id' (snd (compareWithPreviousReviews heap_a [0] [] ''abc'') ! 0)"
    using same identifier_is_base64_of_unstripped_text
        [OF d l, where h = heap_a and historicalReviews = "[]" and currentCommitSha = "''abc''"
           and ?newComments2.0 = "[0, 1]" and j = 0 and ?h2.0 = heap_ab
           and ?historicalReviews2.0 = "[record_b]" and ?currentCommitSha2.0 = "''def''"]
    by blast
  show ?thesis
    using d l same first second by simp
qed

text \<open>
  C1 (as the specification words it) fails: the two findings below have the same path, the
  same line and bodies that are equal once the bracketed tag is stripped, and they receive
  different identifiers.
\<close>

theorem identifier_after_stripping_counterexample:
  "path finding_a_tagged = path finding_a \<and>
   line finding_a_tagged = line finding_a \<and>
   strip_body (body finding_a_tagged) = strip_body (body finding_a) \<and>
   id' (snd (compareWithPreviousReviews heap_a_tagged [0] [] ''abc'') ! 0) \<noteq>
   id' (snd (compareWithPreviousReviews heap_a [0] [] ''abc'') ! 0)"
  by code_simp

section \<open>The status of the issues in the output\<close>

text \<open>
  C2 (as the code has it). The reconciliation never assigns a status to an issue of the
  current run: the first entries of the output, one for each input issue, carry the status
  the issue had on entry (none, for the findings of \<open>createComment\<close> and of the quality
  tools). Every further entry was made from a historical record and has status resolved.
\<close>

theorem output_status:
  "map status (snd (compareWithPreviousReviews h newComments historicalReviews currentCommitSha)) =
     map (\<lambda>r. status (h r)) newComments
     @ replicate
         (length (snd (compareWithPreviousReviews h newComments historicalReviews currentCommitSha))
            - length newComments)
         (Some Resolved)"
proof -
  have "map status (resolvedComments historicalReviews ps) =
        replicate (length (resolvedComments historicalReviews ps)) (Some Resolved)" for ps
    by (simp add: resolvedComments_def mark_resolved_def map_replicate_const comp_def)
  then show ?thesis
    by (simp add: compareWithPreviousReviews_def Let_def process_loop_status comp_def)
qed

text \<open>
  C2 (as the specification words it) fails: with one finding and no history, the only issue
  in the output has no status.
\<close>

theorem output_status_absent_counterexample:
  "map status (snd (compareWithPreviousReviews heap_a [0] [] ''abc'')) = [None]"
  by code_simp

section \<open>Issues reported before\<close>

text \<open>
  C3 (as the code has it). For the issue at position \<open>i\<close> of the input, the body in the output
  is the tracking marker, the body as received and then the advisory sentence exactly when
  some historical record has the same path, a line at most 3 away and the same body text
  once bracketed tags are removed and the ends trimmed; otherwise nothing is appended. The
  status of the issue is not assigned in either case: it stays what it was on entry.
\<close>

theorem advisory_iff_previously_reported:
  assumes "distinct newComments" and "i < length newComments"
  shows "body (snd (compareWithPreviousReviews h newComments historicalReviews currentCommitSha) ! i) =
           tracking_marker (commentId (h (newComments ! i))) currentCommitSha
           @ body (h (newComments ! i))
           @ (if \<exists>hr\<in>set historicalReviews.
                   path (comment hr) = path (h (newComments ! i)) \<and>
                   num_le (num_abs (num_sub (line (comment hr)) (line (h (newComments ! i)))))
                     (Num 3) \<and>
                   strip_body (body (comment hr)) = strip_body (body (h (newComments ! i)))
              then advisory else [])
         \<and> status (snd (compareWithPreviousReviews h newComments historicalReviews currentCommitSha) ! i) =
           status (h (newComments ! i))"
  using assms by (simp add: compare_nth processComment_body previously_reported_def)

theorem advisory_iff_previously_reported_witness:
  "distinct [0::nat] \<and> (0::nat) < length [0::nat] \<and>
   body (snd (compareWithPreviousReviews heap_a [0] [record_a_moved] ''abc'') ! 0) =
     ''<!--review-id:'' @ id_a @ '',commit:abc-->'' @ [CHR 0x0A] @ ''unused import'' @ advisory \<and>
   status (snd (compareWithPreviousReviews heap_a [0] [record_a_moved] ''abc'') ! 0) = None"
proof -
  have cid: "commentId finding_a = id_a"
    by code_simp
  have s1: "strip_body ''[WARNING] unused import'' = ''unused import''"
    and s2: "strip_body ''unused import'' = ''unused import''"
    by code_simp+
  have d: "distinct [0::nat]" and l: "(0::nat) < length [0::nat]"
    by simp_all
  show ?thesis
    using advisory_iff_previously_reported [OF d l, of heap_a "[record_a_moved]" "''abc''"]
    by (simp add: cid s1 s2 tracking_marker_def)
qed

text \<open>
  C3 (as the specification words it) fails: the historical record below matches the finding
  (same path, line 12 against line 10, same stripped text), and the finding leaves the
  reconciliation without a status.
\<close>

theorem persistent_status_counterexample:
  "previously_reported finding_a record_a_moved \<and>
   status (snd (compareWithPreviousReviews heap_a [0] [record_a_moved] ''abc'') ! 0) = None"
  by code_simp

section \<open>Resolved issues\<close>



section \<open>What the reconciliation does to its input\<close>

text \<open>
  C9 (as the code has it). The reconciliation assigns to the objects of its input list: after
  the call each of them has the computed identifier in \<open>id\<close> and, in \<open>body\<close>, the tracking
  marker, the former body and the advisory when a historical record matched. Its other
  fields and every other object are as before. The first entries of the returned array are
  these same objects.
\<close>

theorem reconciliation_updates_its_input:
  assumes "distinct newComments"
  shows "fst (compareWithPreviousReviews h newComments historicalReviews currentCommitSha) r =
           (if r \<in> set newComments
            then (h r)\<lparr>id' := Some (commentId (h r)),
                       body := tracking_marker (commentId (h r)) currentCommitSha @ body (h r)
                               @ (if \<exists>hr\<in>set historicalReviews. previously_reported (h r) hr
                                  then advisory else [])\<rparr>
            else h r)
         \<and> take (length newComments)
             (snd (compareWithPreviousReviews h newComments historicalReviews currentCommitSha)) =
           map (fst (compareWithPreviousReviews h newComments historicalReviews currentCommitSha))
             newComments"
proof -
  have shared: "take (length newComments)
             (snd (compareWithPreviousReviews h newComments historicalReviews currentCommitSha)) =
           map (fst (compareWithPreviousReviews h newComments historicalReviews currentCommitSha))
             newComments"
    by (simp add: compareWithPreviousReviews_def Let_def)
  have "processComment historicalReviews currentCommitSha c =
        c\<lparr>id' := Some (commentId c),
          body := tracking_marker (commentId c) currentCommitSha @ body c
                  @ (if \<exists>hr\<in>set historicalReviews. previously_reported c hr
                     then advisory else [])\<rparr>" for c
    using processComment_body [of historicalReviews currentCommitSha c]
    by (cases c) (simp add: processComment_def Let_def split: option.splits)
  with assms shared show ?thesis
    by (simp add: compare_fst)
qed

theorem reconciliation_updates_its_input_witness:
  "distinct [0::nat] \<and>
   fst (compareWithPreviousReviews heap_a [0] [] ''abc'') 0 = reconciled_a ''abc'' \<and>
   take (length [0::nat]) (snd (compareWithPreviousReviews heap_a [0] [] ''abc'')) =
     map (fst (compareWithPreviousReviews heap_a [0] [] ''abc'')) [0]"
proof -
  have cid: "commentId finding_a = id_a"
    by code_simp
  have d: "distinct [0::nat]"
    by simp
  show ?thesis
    using reconciliation_updates_its_input [OF d, of heap_a "[]" "''abc''" 0]
    by (simp add: cid tracking_marker_def)
qed

text \<open>
  C9 (as the specification words it) fails: after a call on one finding and no history, the
  object that was passed in has another \<open>id\<close> and another \<open>body\<close> than before.
\<close>

theorem input_unchanged_counterexample:
  "id' (fst (compareWithPreviousReviews heap_a [0] [] ''abc'') 0) \<noteq> id' (heap_a 0) \<and>
   body (fst (compareWithPreviousReviews heap_a [0] [] ''abc'') 0) \<noteq> body (heap_a 0)"
  by code_simp

section \<open>A second run on the output of the first\<close>

text \<open>
  C6 (as the code has it). Let the reconciliation run on some issues, and run again on the
  same issues, as they were before the first run, with the output of the first run as the
  historical records. Then every issue receives in the second run the identifier it received
  in the first; what follows the current issues in the second output is exactly the resolved
  issues of the first output, marked resolved once more; and the two outputs have the same
  length. So no current issue is reported resolved, and nothing is reported resolved when
  the first run reported nothing resolved. Nothing is said here of the advisory sentence.
\<close>

theorem second_run_on_own_output:
  assumes "distinct newComments"
    and "map comment history2 = snd (compareWithPreviousReviews h newComments history1 sha1)"
  shows "map id' (take (length newComments)
                    (snd (compareWithPreviousReviews h newComments history2 sha2))) =
         map id' (take (length newComments)
                    (snd (compareWithPreviousReviews h newComments history1 sha1)))
       \<and> drop (length newComments) (snd (compareWithPreviousReviews h newComments history2 sha2)) =
         map mark_resolved (drop (length newComments) history2)
       \<and> length (snd (compareWithPreviousReviews h newComments history2 sha2)) =
         length (snd (compareWithPreviousReviews h newComments history1 sha1))"
proof -
  define n where "n = length newComments"
  define ids where "ids = (\<lambda>r. Some (commentId (h r))) ` set newComments"
  define P1 where "P1 = map (\<lambda>r. processComment history1 sha1 (h r)) newComments"
  define P2 where "P2 = map (\<lambda>r. processComment history2 sha2 (h r)) newComments"
  define R1 where "R1 = map mark_resolved (filter (\<lambda>hr. id' (comment hr) \<notin> ids) history1)"
  have out1: "snd (compareWithPreviousReviews h newComments history1 sha1) = P1 @ R1"
    using assms(1) by (simp add: compare_snd resolvedComments_ids P1_def R1_def ids_def)
  have out2: "snd (compareWithPreviousReviews h newComments history2 sha2) =
              P2 @ map mark_resolved (filter (\<lambda>hr. id' (comment hr) \<notin> ids) history2)"
    using assms(1) by (simp add: compare_snd resolvedComments_ids P2_def ids_def)
  have len: "length P1 = n" "length P2 = n"
    by (simp_all add: P1_def P2_def n_def)
  have hist: "map comment history2 = P1 @ R1"
    using assms(2) out1 by simp
  have split: "history2 = take n history2 @ drop n history2"
    by simp
  have tk: "map comment (take n history2) = P1"
    using hist len by (metis append_eq_conv_conj take_map)
  have dr: "map comment (drop n history2) = R1"
    using hist len by (metis append_eq_conv_conj drop_map)
  have "\<forall>hr\<in>set (take n history2). id' (comment hr) \<in> ids"
  proof
    fix hr assume "hr \<in> set (take n history2)"
    then have "comment hr \<in> set P1"
      using tk by (metis image_eqI set_map)
    then show "id' (comment hr) \<in> ids"
      by (auto simp: P1_def ids_def)
  qed
  then have f1: "filter (\<lambda>hr. id' (comment hr) \<notin> ids) (take n history2) = []"
    by (simp add: filter_empty_conv)
  have "\<forall>hr\<in>set (drop n history2). id' (comment hr) \<notin> ids"
  proof
    fix hr assume "hr \<in> set (drop n history2)"
    then have "comment hr \<in> set R1"
      using dr by (metis image_eqI set_map)
    then show "id' (comment hr) \<notin> ids"
      by (auto simp: R1_def)
  qed
  then have f2: "filter (\<lambda>hr. id' (comment hr) \<notin> ids) (drop n history2) = drop n history2"
    by (simp add: filter_id_conv)
  have f: "filter (\<lambda>hr. id' (comment hr) \<notin> ids) history2 = drop n history2"
    using f1 f2 by (metis split filter_append append_Nil)
  have ids12: "map id' P2 = map id' P1"
    by (simp add: P1_def P2_def)
  have "length (drop n history2) = length R1"
    using dr by (metis length_map)
  then show ?thesis
    using out1 out2 f len ids12 by (simp add: n_def [symmetric])
qed

theorem second_run_on_own_output_witness:
  "distinct [0::nat] \<and>
   map comment [record_of_reconciled_a] = snd (compareWithPreviousReviews heap_a [0] [] ''c1'') \<and>
   map id' (take (length [0::nat])
              (snd (compareWithPreviousReviews heap_a [0] [record_of_reconciled_a] ''c2''))) =
     map id' (take (length [0::nat]) (snd (compareWithPreviousReviews heap_a [0] [] ''c1''))) \<and>
   drop (length [0::nat])
     (snd (compareWithPreviousReviews heap_a [0] [record_of_reconciled_a] ''c2'')) =
     map mark_resolved (drop (length [0::nat]) [record_of_reconciled_a]) \<and>
   length (snd (compareWithPreviousReviews heap_a [0] [record_of_reconciled_a] ''c2'')) =
     length (snd (compareWithPreviousReviews heap_a [0] [] ''c1''))"
proof -
  have d: "distinct [0::nat]"
    by simp
  have a: "map comment [record_of_reconciled_a] =
           snd (compareWithPreviousReviews heap_a [0] [] ''c1'')"
    by code_simp
  show ?thesis
    using d a second_run_on_own_output [OF d a, of "''c2''"]
    by blast
qed

text \<open>
  C6 (as the specification words it) fails: the finding below is reconciled against an empty
  history, then again against the output of that run. The body kept in that output starts
  with the tracking marker, which the comparison of stripped bodies does not remove, so the
  finding is not recognised: the second run appends no advisory and assigns no status.
\<close>

theorem second_run_not_persistent_counterexample:
  "map comment [record_of_reconciled_a] = snd (compareWithPreviousReviews heap_a [0] [] ''c1'') \<and>
   \<not> previously_reported finding_a record_of_reconciled_a \<and>
   snd (compareWithPreviousReviews heap_a [0] [record_of_reconciled_a] ''c2'') =
     [reconciled_a ''c2'']"
  by code_simp

section \<open>The line a finding is anchored to\<close>



section \<open>A reported line that is not a number\<close>



section \<open>The verdict\<close>



section \<open>The comment mode\<close>



end
